theory Spec2Isabelle
  imports
    Main
    "HOL-Library.Char_ord"
    "HOL-Library.List_Lexorder"
    "HOL-Library.Multiset"
    "HOL-Library.Log_Nat"
begin

section \<open>Python values\<close>

text \<open>
  The transaction code of \<^verbatim>\<open>akash_api/transaction.py\<close> works on plain Python
  dictionaries, lists, strings, integers and byte strings. A dictionary is an
  association list in insertion order (Python dictionaries keep it, and
  \<^verbatim>\<open>json.dumps\<close> without \<^verbatim>\<open>sort_keys\<close> shows it); its keys are strings, as the
  annotations \<^verbatim>\<open>Dict[str, Any]\<close> say. A \<^verbatim>\<open>str\<close> is a list of code points below 256
  and a \<^verbatim>\<open>bytes\<close> object a list of bytes, both \<^typ>\<open>char list\<close>. Floating-point
  members of a dictionary are not part of the value type.
\<close>

datatype pyval =
    PNone
  | PBool bool
  | PInt int
  | PStr string
  | PBytes "char list"
  | PList "pyval list"
  | PDict "(string \<times> pyval) list"

text \<open>
  Exceptions are values. The source defines \<^verbatim>\<open>AkashTransactionError\<close> and
  \<^verbatim>\<open>AkashAsyncClientError\<close>; the others are Python's own and aiohttp's. The
  message of the one formatted exception, \<^verbatim>\<open>f"Broadcast failed: {result['error']}"\<close>,
  is kept as the literal text and the value whose \<^verbatim>\<open>str()\<close> follows it.
\<close>

datatype error =
    TypeError
  | ValueError
  | OverflowError
  | KeyError string
  | AttributeError
  | ClientError
  | ClientResponseError nat
  | AkashTransactionError string pyval
  | AkashAsyncClientError string

section \<open>Library functions\<close>

subsection \<open>Strings\<close>

text \<open>The decimal digits of a non-negative integer.\<close>

function digits_of :: "int \<Rightarrow> string" where
  "digits_of n =
     (if n < 10 then [char_of (48 + n)]
      else digits_of (n div 10) @ [char_of (48 + n mod 10)])"
  by pat_completeness auto
termination
  by (relation "measure nat") auto

declare digits_of.simps [simp del]

text \<open>\<^verbatim>\<open>str(i)\<close> for an integer: decimal digits, a minus sign when negative.\<close>

definition py_str_int :: "int \<Rightarrow> string" where
  "py_str_int i = (if i < 0 then CHR ''-'' # digits_of (- i) else digits_of i)"

text \<open>
  \<^verbatim>\<open>s.replace(old, new)\<close>: every non-overlapping occurrence, leftmost first. With an
  empty \<^verbatim>\<open>old\<close> Python puts \<^verbatim>\<open>new\<close> before every character and at the end.
\<close>

function replace_from :: "string \<Rightarrow> string \<Rightarrow> string \<Rightarrow> string" where
  "replace_from old new s =
     (if old = [] \<or> s = [] then s
      else if take (length old) s = old
        then new @ replace_from old new (drop (length old) s)
      else hd s # replace_from old new (tl s))"
  by pat_completeness auto
termination
  by (relation "measure (\<lambda>(old, new, s). length s)") auto

declare replace_from.simps [simp del]

definition py_replace :: "string \<Rightarrow> string \<Rightarrow> string \<Rightarrow> string" where
  "py_replace s old new =
     (if old = [] then new @ concat (map (\<lambda>c. c # new) s) else replace_from old new s)"

fun py_join :: "string \<Rightarrow> string list \<Rightarrow> string" where
  "py_join sep [] = []"
| "py_join sep [x] = x"
| "py_join sep (x # y # ys) = x @ sep @ py_join sep (y # ys)"

text \<open>\<^verbatim>\<open>s.encode()\<close>: UTF-8; a code point from 128 to 255 takes two bytes.\<close>

definition utf8_char :: "char \<Rightarrow> char list" where
  "utf8_char c =
     (let n = (of_char c :: nat) in
      if n < 128 then [c] else [char_of (192 + n div 64), char_of (128 + n mod 64)])"

definition py_encode :: "string \<Rightarrow> char list" where
  "py_encode s = concat (map utf8_char s)"

subsection \<open>base64\<close>

definition b64_char :: "int \<Rightarrow> char" where
  "b64_char n =
     ''ABCDEFGHIJKLMNOPQRSTUVWXYZabcdefghijklmnopqrstuvwxyz0123456789+/'' ! nat n"

fun b64encode :: "char list \<Rightarrow> char list" where
  "b64encode [] = []"
| "b64encode [a] =
     (let n = (of_char a :: int) in
      [b64_char (n div 4), b64_char (n mod 4 * 16), CHR ''='', CHR ''=''])"
| "b64encode [a, b] =
     (let n = (of_char a :: int) * 256 + of_char b in
      [b64_char (n div 1024), b64_char (n div 16 mod 64), b64_char (n mod 16 * 4), CHR ''=''])"
| "b64encode (a # b # c # rest) =
     (let n = (of_char a :: int) * 65536 + of_char b * 256 + of_char c in
      [b64_char (n div 262144), b64_char (n div 4096 mod 64),
       b64_char (n div 64 mod 64), b64_char (n mod 64)] @ b64encode rest)"

text \<open>
  \<^verbatim>\<open>base64.b64encode(b).decode()\<close>: the base64 alphabet is ASCII, so decoding maps
  each byte to the character of the same code.
\<close>

definition b64encode_str :: "char list \<Rightarrow> string" where
  "b64encode_str b = b64encode b"

subsection \<open>json.dumps\<close>

text \<open>
  \<^verbatim>\<open>json.dumps\<close> with \<^verbatim>\<open>ensure_ascii\<close> (the default): a string is quoted, and
  a quote, a backslash and every character outside \<^verbatim>\<open>' '..'~'\<close> is escaped.
\<close>

definition hex_char :: "nat \<Rightarrow> char" where
  "hex_char n = ''0123456789abcdef'' ! n"

definition json_escape_char :: "char \<Rightarrow> string" where
  "json_escape_char c =
     (let n = (of_char c :: nat) in
      if c = CHR 0x22 then [CHR 0x5C, CHR 0x22]
      else if c = CHR 0x5C then [CHR 0x5C, CHR 0x5C]
      else if c = CHR 0x0A then [CHR 0x5C, CHR ''n'']
      else if c = CHR 0x0D then [CHR 0x5C, CHR ''r'']
      else if c = CHR 0x09 then [CHR 0x5C, CHR ''t'']
      else if c = CHR 0x08 then [CHR 0x5C, CHR ''b'']
      else if c = CHR 0x0C then [CHR 0x5C, CHR ''f'']
      else if 32 \<le> n \<and> n \<le> 126 then [c]
      else [CHR 0x5C, CHR ''u'', CHR ''0'', CHR ''0'', hex_char (n div 16), hex_char (n mod 16)])"

definition json_string :: "string \<Rightarrow> string" where
  "json_string s = CHR 0x22 # concat (map json_escape_char s) @ [CHR 0x22]"

fun sequence_sum :: "('e + 'a) list \<Rightarrow> 'e + 'a list" where
  "sequence_sum [] = Inr []"
| "sequence_sum (Inl e # rs) = Inl e"
| "sequence_sum (Inr x # rs) =
     (case sequence_sum rs of Inl e \<Rightarrow> Inl e | Inr xs \<Rightarrow> Inr (x # xs))"

text \<open>
  \<^verbatim>\<open>json.dumps(v, sort_keys=sk, separators=(isep, ksep))\<close>. With \<^verbatim>\<open>sort_keys\<close> the
  items of every dictionary, at every depth, are sorted by key before they are
  written. A \<^verbatim>\<open>bytes\<close> object anywhere in the value raises
  \<^verbatim>\<open>TypeError: Object of type bytes is not JSON serializable\<close>.
\<close>

function json_dumps :: "bool \<Rightarrow> string \<Rightarrow> string \<Rightarrow> pyval \<Rightarrow> error + string" where
  "json_dumps sk isep ksep PNone = Inr ''null''"
| "json_dumps sk isep ksep (PBool b) = Inr (if b then ''true'' else ''false'')"
| "json_dumps sk isep ksep (PInt i) = Inr (py_str_int i)"
| "json_dumps sk isep ksep (PStr s) = Inr (json_string s)"
| "json_dumps sk isep ksep (PBytes b) = Inl TypeError"
| "json_dumps sk isep ksep (PList xs) =
     (case sequence_sum (map (json_dumps sk isep ksep) xs) of
        Inl e \<Rightarrow> Inl e
      | Inr ss \<Rightarrow> Inr (''['' @ py_join isep ss @ '']''))"
| "json_dumps sk isep ksep (PDict kvs) =
     (case sequence_sum
             (map (\<lambda>kv. case json_dumps sk isep ksep (snd kv) of
                           Inl e \<Rightarrow> Inl e
                         | Inr s \<Rightarrow> Inr (json_string (fst kv) @ ksep @ s))
                  (if sk then sort_key fst kvs else kvs)) of
        Inl e \<Rightarrow> Inl e
      | Inr ss \<Rightarrow> Inr (''{'' @ py_join isep ss @ ''}''))"
  by pat_completeness auto
termination
proof (relation "measure (\<lambda>(sk, isep, ksep, v). size v)", goal_cases)
  case 1
  show ?case by simp
next
  case (2 sk isep ksep xs x)
  then show ?case
    by (induction xs) auto
next
  case (3 sk isep ksep kvs kv)
  then have "kv \<in> set kvs"
    by (simp split: if_splits)
  then show ?case
    by (induction kvs) (auto simp: size_prod_simp)
qed

text \<open>The three ways the source calls it.\<close>

definition json_dumps_default :: "pyval \<Rightarrow> error + string" where
  "json_dumps_default v = json_dumps False '', '' '': '' v"

definition json_dumps_sorted :: "pyval \<Rightarrow> error + string" where
  "json_dumps_sorted v = json_dumps True '', '' '': '' v"

definition json_dumps_compact :: "pyval \<Rightarrow> error + string" where
  "json_dumps_compact v = json_dumps True '','' '':'' v"

subsection \<open>Subscripts\<close>

text \<open>\<^verbatim>\<open>d[k]\<close> with a string key: \<^verbatim>\<open>KeyError\<close> on a dictionary without it,
  \<^verbatim>\<open>TypeError\<close> on a value that is no dictionary.\<close>

definition getitem :: "pyval \<Rightarrow> string \<Rightarrow> error + pyval" where
  "getitem d k =
     (case d of
        PDict kvs \<Rightarrow> (case map_of kvs k of None \<Rightarrow> Inl (KeyError k) | Some v \<Rightarrow> Inr v)
      | _ \<Rightarrow> Inl TypeError)"

section \<open>Message builder\<close>

record signer =
  rpc_endpoint :: string
  chain_id :: string
  gas_price :: string

definition sdl_to_groups :: "pyval \<Rightarrow> pyval" where
  "sdl_to_groups sdl =
     PList [PDict [
       (''name'', PStr ''default''),
       (''requirements'', PDict [
          (''signed_by'', PDict [(''all_of'', PList []), (''any_of'', PList [])])]),
       (''resources'', PList [PDict [
          (''resources'', PDict [
             (''cpu'', PDict [(''units'', PDict [(''val'', PStr ''1000'')])]),
             (''memory'', PDict [(''quantity'', PDict [(''val'', PStr ''1073741824'')])]),
             (''storage'', PList [PDict [
                (''name'', PStr ''default''),
                (''quantity'', PDict [(''val'', PStr ''1073741824'')])]])]),
          (''count'', PInt 1),
          (''price'', PDict [(''denom'', PStr ''uakt''), (''amount'', PStr ''1000'')])]])]]"

definition create_deployment_msg :: "signer \<Rightarrow> string \<Rightarrow> pyval \<Rightarrow> string \<Rightarrow> error + pyval" where
  "create_deployment_msg self owner sdl deposit =
     (case json_dumps_default sdl of
        Inl e \<Rightarrow> Inl e
      | Inr js \<Rightarrow> Inr (PDict [
          (''@type'', PStr ''/akash.deployment.v1beta3.MsgCreateDeployment''),
          (''id'', PDict [(''owner'', PStr owner), (''dseq'', PStr ''0'')]),
          (''groups'', sdl_to_groups sdl),
          (''version'', PStr (b64encode_str (py_encode js))),
          (''deposit'', PDict [
             (''denom'', PStr ''uakt''),
             (''amount'', PStr (py_replace deposit ''uakt'' ''''))]),
          (''depositor'', PStr owner)]))"

definition create_bid_msg :: "signer \<Rightarrow> string \<Rightarrow> pyval \<Rightarrow> string \<Rightarrow> pyval" where
  "create_bid_msg self bidder order_id price =
     PDict [
       (''@type'', PStr ''/akash.market.v1beta4.MsgCreateBid''),
       (''order'', order_id),
       (''provider'', PStr bidder),
       (''price'', PDict [
          (''denom'', PStr ''uakt''),
          (''amount'', PStr (py_replace price ''uakt'' ''''))])]"

definition create_lease_msg :: "signer \<Rightarrow> string \<Rightarrow> string \<Rightarrow> pyval \<Rightarrow> pyval" where
  "create_lease_msg self tenant provider bid_id =
     PDict [
       (''@type'', PStr ''/akash.market.v1beta4.MsgCreateLease''),
       (''bid_id'', bid_id)]"

section \<open>Numbers\<close>

subsection \<open>Parsing\<close>

text \<open>
  \<^verbatim>\<open>int(s)\<close> and \<^verbatim>\<open>float(s)\<close> strip surrounding whitespace and accept a sign and
  single underscores between digits. For a \<^verbatim>\<open>str\<close> the whitespace is Unicode's
  (of the code points below 256: 9 to 13, 28 to 32, 133 and 160), for \<^verbatim>\<open>bytes\<close>
  it is ASCII's.
\<close>

definition is_digit :: "char \<Rightarrow> bool" where
  "is_digit c \<longleftrightarrow> 48 \<le> (of_char c :: int) \<and> (of_char c :: int) \<le> 57"

definition str_space :: "char \<Rightarrow> bool" where
  "str_space c \<longleftrightarrow>
     (let n = (of_char c :: nat) in (9 \<le> n \<and> n \<le> 13) \<or> (28 \<le> n \<and> n \<le> 32) \<or> n = 133 \<or> n = 160)"

definition bytes_space :: "char \<Rightarrow> bool" where
  "bytes_space c \<longleftrightarrow> (let n = (of_char c :: nat) in (9 \<le> n \<and> n \<le> 13) \<or> n = 32)"

definition py_strip :: "(char \<Rightarrow> bool) \<Rightarrow> string \<Rightarrow> string" where
  "py_strip sp s = rev (dropWhile sp (rev (dropWhile sp s)))"

text \<open>The digits at the front of a string, underscores between two digits dropped, and
  what follows them.\<close>

fun take_digits :: "string \<Rightarrow> string \<times> string" where
  "take_digits [] = ([], [])"
| "take_digits [c] = (if is_digit c then ([c], []) else ([], [c]))"
| "take_digits (c # d # s) =
     (if \<not> is_digit c then ([], c # d # s)
      else if is_digit d then (case take_digits (d # s) of (ds, r) \<Rightarrow> (c # ds, r))
      else if d = CHR ''_'' \<and> s \<noteq> [] \<and> is_digit (hd s)
        then (case take_digits s of (ds, r) \<Rightarrow> (c # ds, r))
      else ([c], d # s))"

definition digits_value :: "string \<Rightarrow> int" where
  "digits_value ds = foldl (\<lambda>acc c. 10 * acc + (of_char c - 48)) 0 ds"

text \<open>An optional sign: whether it is a minus, and the rest.\<close>

definition take_sign :: "string \<Rightarrow> bool \<times> string" where
  "take_sign s =
     (case s of
        [] \<Rightarrow> (False, [])
      | c # r \<Rightarrow> if c = CHR ''-'' then (True, r) else if c = CHR ''+'' then (False, r) else (False, s))"

definition parse_int :: "(char \<Rightarrow> bool) \<Rightarrow> string \<Rightarrow> error + int" where
  "parse_int sp s =
     (case take_sign (py_strip sp s) of (neg, r) \<Rightarrow>
        (case take_digits r of (ds, rest) \<Rightarrow>
           if ds = [] \<or> rest \<noteq> [] then Inl ValueError
           else Inr (if neg then - digits_value ds else digits_value ds)))"

text \<open>\<^verbatim>\<open>int(x)\<close> for a value.\<close>

definition py_int :: "pyval \<Rightarrow> error + int" where
  "py_int v =
     (case v of
        PInt i \<Rightarrow> Inr i
      | PBool b \<Rightarrow> Inr (if b then 1 else 0)
      | PStr s \<Rightarrow> parse_int str_space s
      | PBytes b \<Rightarrow> parse_int bytes_space b
      | _ \<Rightarrow> Inl TypeError)"

subsection \<open>Double-precision floats\<close>

text \<open>
  A finite \<^verbatim>\<open>float\<close> is \<open>m * 2 ^ e\<close> for integers \<open>m\<close> and \<open>e\<close>, with
  \<open>\<bar>m\<bar> \<le> 2 ^ 53\<close> and \<open>e \<ge> -1074\<close>, and below \<open>2 ^ 1024\<close> in magnitude. The sign of
  a zero is not kept: nothing the source does with a float shows it.
\<close>

datatype pyfloat = Finite int int | PosInf | NegInf | NaN

definition round_half_even :: "int \<Rightarrow> int \<Rightarrow> int" where
  "round_half_even n d =
     (let q = n div d; r = n mod d in
      if 2 * r < d then q
      else if d < 2 * r then q + 1
      else if even q then q else q + 1)"

text \<open>
  The double nearest to \<open>n / d\<close> for \<open>n \<ge> 0\<close> and \<open>d > 0\<close>, negated when \<open>neg\<close>
  (ties go to the even mantissa),
  as the correctly rounded conversions and operations of IEEE 754 give it: \<open>lead\<close> is
  the exponent of the leading bit of \<open>n / d\<close>, the mantissa keeps 53 bits from it,
  fewer in the subnormal range, and a result of \<open>2 ^ 1024\<close> or more is infinite.
\<close>

definition double_of_ratio :: "bool \<Rightarrow> int \<Rightarrow> int \<Rightarrow> pyfloat" where
  "double_of_ratio neg n d =
     (if n = 0 then Finite 0 0
      else
        let s = bitlen n - bitlen d;
            lead = (if d * 2 ^ nat s \<le> n * 2 ^ nat (- s) then s else s - 1);
            e = max (lead - 52) (- 1074);
            m = round_half_even (n * 2 ^ nat (- e)) (d * 2 ^ nat e)
        in if 971 < e \<or> (e = 971 \<and> 2 ^ 53 \<le> m) then (if neg then NegInf else PosInf)
           else Finite (if neg then - m else m) e)"

definition py_lower :: "char \<Rightarrow> char" where
  "py_lower c = (let n = (of_char c :: nat) in if 65 \<le> n \<and> n \<le> 90 then char_of (n + 32) else c)"

text \<open>
  \<^verbatim>\<open>float(s)\<close>: \<^verbatim>\<open>inf\<close>, \<^verbatim>\<open>infinity\<close> and \<^verbatim>\<open>nan\<close> in any case, or a decimal
  number with at least one digit before or after the point and an optional exponent.
\<close>

definition parse_float :: "string \<Rightarrow> error + pyfloat" where
  "parse_float s =
     (case take_sign (py_strip str_space s) of (neg, r) \<Rightarrow>
        if map py_lower r = ''inf'' \<or> map py_lower r = ''infinity''
          then Inr (if neg then NegInf else PosInf)
        else if map py_lower r = ''nan'' then Inr NaN
        else
          (case take_digits r of (ip, r1) \<Rightarrow>
           (case (if r1 \<noteq> [] \<and> hd r1 = CHR ''.'' then take_digits (tl r1) else ([], r1)) of (fp, r2) \<Rightarrow>
              if ip = [] \<and> fp = [] then Inl ValueError
              else if r2 = [] then
                Inr (double_of_ratio neg (digits_value (ip @ fp)) (10 ^ length fp))
              else if py_lower (hd r2) \<noteq> CHR ''e'' then Inl ValueError
              else
                (case take_sign (tl r2) of (eneg, r3) \<Rightarrow>
                 (case take_digits r3 of (ep, r4) \<Rightarrow>
                    if ep = [] \<or> r4 \<noteq> [] then Inl ValueError
                    else
                      let ex = (if eneg then - digits_value ep else digits_value ep)
                                 - int (length fp)
                      in Inr (double_of_ratio neg
                                (digits_value (ip @ fp) * 10 ^ nat ex) (10 ^ nat (- ex))))))))"

text \<open>The conversion of an \<^verbatim>\<open>int\<close> operand of a float operation:
  \<^verbatim>\<open>OverflowError: int too large to convert to float\<close> beyond the range.\<close>

definition float_of_int :: "int \<Rightarrow> error + pyfloat" where
  "float_of_int i =
     (case double_of_ratio (i < 0) \<bar>i\<bar> 1 of
        Finite m e \<Rightarrow> Inr (Finite m e)
      | _ \<Rightarrow> Inl OverflowError)"

fun float_mul :: "pyfloat \<Rightarrow> pyfloat \<Rightarrow> pyfloat" where
  "float_mul NaN y = NaN"
| "float_mul x NaN = NaN"
| "float_mul (Finite m e) (Finite m' e') =
     double_of_ratio (m * m' < 0) (\<bar>m * m'\<bar> * 2 ^ nat (e + e')) (2 ^ nat (- (e + e')))"
| "float_mul (Finite m e) PosInf = (if m = 0 then NaN else if m < 0 then NegInf else PosInf)"
| "float_mul (Finite m e) NegInf = (if m = 0 then NaN else if m < 0 then PosInf else NegInf)"
| "float_mul PosInf (Finite m e) = (if m = 0 then NaN else if m < 0 then NegInf else PosInf)"
| "float_mul NegInf (Finite m e) = (if m = 0 then NaN else if m < 0 then PosInf else NegInf)"
| "float_mul PosInf PosInf = PosInf"
| "float_mul PosInf NegInf = NegInf"
| "float_mul NegInf PosInf = NegInf"
| "float_mul NegInf NegInf = PosInf"

text \<open>\<^verbatim>\<open>int(x)\<close> for a float truncates toward zero.\<close>

definition int_of_float :: "pyfloat \<Rightarrow> error + int" where
  "int_of_float x =
     (case x of
        Finite m e \<Rightarrow>
          Inr (if 0 \<le> e then m * 2 ^ nat e
               else if 0 \<le> m then m div 2 ^ nat (- e)
               else - ((- m) div 2 ^ nat (- e)))
      | NaN \<Rightarrow> Inl ValueError
      | _ \<Rightarrow> Inl OverflowError)"

section \<open>Transaction assembler\<close>

record transaction_info =
  chain_id :: string
  account_number :: int
  sequence :: int
  fee :: pyval
  memo :: string

record wallet =
  private_key :: "char list"
  public_key :: "char list"
  address :: string

text \<open>\<^verbatim>\<open>int(float(self.gas_price.replace("uakt", "")) * gas_limit)\<close>\<close>

definition gas_amount :: "signer \<Rightarrow> int \<Rightarrow> error + int" where
  "gas_amount self gas_limit =
     (case parse_float (py_replace (gas_price self) ''uakt'' '''') of
        Inl e \<Rightarrow> Inl e
      | Inr price \<Rightarrow>
          (case float_of_int gas_limit of
             Inl e \<Rightarrow> Inl e
           | Inr g \<Rightarrow> int_of_float (float_mul price g)))"

definition create_transaction ::
  "signer \<Rightarrow> wallet \<Rightarrow> pyval list \<Rightarrow> transaction_info \<Rightarrow> int \<Rightarrow> error + pyval" where
  "create_transaction self w messages tx_info gas_limit =
     (case gas_amount self gas_limit of
        Inl e \<Rightarrow> Inl e
      | Inr amount \<Rightarrow> Inr (PDict [
          (''body'', PDict [
             (''messages'', PList messages),
             (''memo'', PStr (memo tx_info)),
             (''timeout_height'', PStr ''0''),
             (''extension_options'', PList []),
             (''non_critical_extension_options'', PList [])]),
          (''auth_info'', PDict [
             (''signer_infos'', PList [PDict [
                (''public_key'', PDict [
                   (''@type'', PStr ''/cosmos.crypto.secp256k1.PubKey''),
                   (''key'', PStr (b64encode_str (public_key w)))]),
                (''mode_info'', PDict [
                   (''single'', PDict [(''mode'', PStr ''SIGN_MODE_DIRECT'')])]),
                (''sequence'', PStr (py_str_int (sequence tx_info)))]]),
             (''fee'', PDict [
                (''amount'', PList [PDict [
                   (''denom'', PStr ''uakt''),
                   (''amount'', PStr (py_str_int amount))]]),
                (''gas_limit'', PStr (py_str_int gas_limit)),
                (''payer'', PStr ''''),
                (''granter'', PStr '''')])]),
          (''signatures'', PList [])]))"

section \<open>Signer\<close>

text \<open>
  \<^verbatim>\<open>hashlib.sha256(b).digest()\<close> and the signature of the \<^verbatim>\<open>ecdsa\<close> package,
  \<^verbatim>\<open>SigningKey.from_string(key, curve=SECP256k1).sign(data, hashfunc=hashlib.sha256)\<close>,
  are library code and parameters of the model. That \<^verbatim>\<open>sign\<close> draws a nonce from the
  operating system's entropy on every call; the nonce is its third argument here.
\<close>

record crypto =
  sha256 :: "char list \<Rightarrow> char list"
  ecdsa_sign :: "char list \<Rightarrow> char list \<Rightarrow> nat \<Rightarrow> error + char list"

text \<open>\<^verbatim>\<open>d[k] = v\<close>: an existing key keeps its place, a new one goes to the end.\<close>

fun dict_set :: "(string \<times> pyval) list \<Rightarrow> string \<Rightarrow> pyval \<Rightarrow> (string \<times> pyval) list" where
  "dict_set [] k v = [(k, v)]"
| "dict_set (kv # kvs) k v = (if fst kv = k then (k, v) # kvs else kv # dict_set kvs k v)"

definition setitem :: "pyval \<Rightarrow> string \<Rightarrow> pyval \<Rightarrow> error + pyval" where
  "setitem d k v = (case d of PDict kvs \<Rightarrow> Inr (PDict (dict_set kvs k v)) | _ \<Rightarrow> Inl TypeError)"

definition encode_body :: "pyval \<Rightarrow> error + char list" where
  "encode_body body =
     (case json_dumps_sorted body of Inl e \<Rightarrow> Inl e | Inr s \<Rightarrow> Inr (py_encode s))"

definition encode_auth_info :: "pyval \<Rightarrow> error + char list" where
  "encode_auth_info auth_info =
     (case json_dumps_sorted auth_info of Inl e \<Rightarrow> Inl e | Inr s \<Rightarrow> Inr (py_encode s))"

text \<open>The local \<^verbatim>\<open>sign_doc\<close> of \<^verbatim>\<open>sign_transaction\<close>: two of its values are
  \<^verbatim>\<open>bytes\<close> objects, the results of the two encoders.\<close>

definition sign_doc :: "pyval \<Rightarrow> transaction_info \<Rightarrow> error + pyval" where
  "sign_doc transaction tx_info =
     (case getitem transaction ''body'' of
        Inl e \<Rightarrow> Inl e
      | Inr body \<Rightarrow>
     (case encode_body body of
        Inl e \<Rightarrow> Inl e
      | Inr body_bytes \<Rightarrow>
     (case getitem transaction ''auth_info'' of
        Inl e \<Rightarrow> Inl e
      | Inr auth_info \<Rightarrow>
     (case encode_auth_info auth_info of
        Inl e \<Rightarrow> Inl e
      | Inr auth_info_bytes \<Rightarrow>
          Inr (PDict [
            (''body_bytes'', PBytes body_bytes),
            (''auth_info_bytes'', PBytes auth_info_bytes),
            (''chain_id'', PStr (chain_id tx_info)),
            (''account_number'', PStr (py_str_int (account_number tx_info)))])))))"

text \<open>The local \<^verbatim>\<open>sign_bytes\<close>:
  \<^verbatim>\<open>json.dumps(sign_doc, sort_keys=True, separators=(',', ':')).encode()\<close>\<close>

definition sign_bytes :: "pyval \<Rightarrow> transaction_info \<Rightarrow> error + char list" where
  "sign_bytes transaction tx_info =
     (case sign_doc transaction tx_info of
        Inl e \<Rightarrow> Inl e
      | Inr doc \<Rightarrow>
          (case json_dumps_compact doc of Inl e \<Rightarrow> Inl e | Inr s \<Rightarrow> Inr (py_encode s)))"

definition sign_transaction ::
  "crypto \<Rightarrow> wallet \<Rightarrow> pyval \<Rightarrow> transaction_info \<Rightarrow> nat \<Rightarrow> error + pyval" where
  "sign_transaction lib w transaction tx_info nonce =
     (case sign_bytes transaction tx_info of
        Inl e \<Rightarrow> Inl e
      | Inr sb \<Rightarrow>
          (let signature_hash = sha256 lib sb in
           case ecdsa_sign lib (private_key w) signature_hash nonce of
             Inl e \<Rightarrow> Inl e
           | Inr signature \<Rightarrow>
               setitem transaction ''signatures'' (PList [PStr (b64encode_str signature)])))"

section \<open>Broadcaster\<close>

fun is_substring :: "string \<Rightarrow> string \<Rightarrow> bool" where
  "is_substring k [] = (k = [])"
| "is_substring k (c # s) = (take (length k) (c # s) = k \<or> is_substring k s)"

text \<open>\<^verbatim>\<open>k in v\<close> for a string \<^verbatim>\<open>k\<close>.\<close>

definition contains_str :: "string \<Rightarrow> pyval \<Rightarrow> error + bool" where
  "contains_str k v =
     (case v of
        PDict kvs \<Rightarrow> Inr (k \<in> set (map fst kvs))
      | PList xs \<Rightarrow> Inr (PStr k \<in> set xs)
      | PStr s \<Rightarrow> Inr (is_substring k s)
      | _ \<Rightarrow> Inl TypeError)"

text \<open>The request that is posted.\<close>

definition broadcast_data :: "pyval \<Rightarrow> error + pyval" where
  "broadcast_data signed_tx =
     (case json_dumps_default signed_tx of
        Inl e \<Rightarrow> Inl e
      | Inr js \<Rightarrow> Inr (PDict [
          (''jsonrpc'', PStr ''2.0''),
          (''id'', PInt 1),
          (''method'', PStr ''broadcast_tx_commit''),
          (''params'', PDict [(''tx'', PStr (b64encode_str (py_encode js)))])]))"

text \<open>
  The network is the parameter \<open>post\<close>: from the URL and the JSON body of a request to
  the decoded JSON of the response, or to the exception of the transport.
\<close>

definition broadcast_transaction ::
  "signer \<Rightarrow> (string \<Rightarrow> pyval \<Rightarrow> error + pyval) \<Rightarrow> pyval \<Rightarrow> error + pyval" where
  "broadcast_transaction self post signed_tx =
     (case broadcast_data signed_tx of
        Inl e \<Rightarrow> Inl e
      | Inr req \<Rightarrow>
     (case post (rpc_endpoint self @ ''/'') req of
        Inl e \<Rightarrow> Inl e
      | Inr result \<Rightarrow>
     (case contains_str ''error'' result of
        Inl e \<Rightarrow> Inl e
      | Inr has_error \<Rightarrow>
          if has_error then
            (case getitem result ''error'' of
               Inl e \<Rightarrow> Inl e
             | Inr err \<Rightarrow> Inl (AkashTransactionError ''Broadcast failed: '' err))
          else getitem result ''result'')))"

section \<open>Account resolver\<close>

text \<open>The answer to a GET request: its status and the outcome of \<^verbatim>\<open>response.json()\<close>.\<close>

record http_response =
  status :: nat
  json :: "error + pyval"

text \<open>The client of \<^verbatim>\<open>async_client.py\<close>: \<open>rest_session\<close> is \<open>None\<close> until the
  context manager has opened a session, then the function that answers a URL.\<close>

record async_client =
  rest_endpoint :: string
  rest_session :: "(string \<Rightarrow> error + http_response) option"

text \<open>\<^verbatim>\<open>d.get(k, default)\<close>\<close>

definition dict_get :: "pyval \<Rightarrow> string \<Rightarrow> pyval \<Rightarrow> error + pyval" where
  "dict_get d k dflt =
     (case d of
        PDict kvs \<Rightarrow> Inr (case map_of kvs k of None \<Rightarrow> dflt | Some v \<Rightarrow> v)
      | _ \<Rightarrow> Inl AttributeError)"

definition get_account_info :: "async_client \<Rightarrow> string \<Rightarrow> error + pyval" where
  "get_account_info self addr =
     (case rest_session self of
        None \<Rightarrow> Inl (AkashAsyncClientError ''REST session not available'')
      | Some get \<Rightarrow>
     (case get (rest_endpoint self @ ''/cosmos/auth/v1beta1/accounts/'' @ addr) of
        Inl e \<Rightarrow> Inl e
      | Inr response \<Rightarrow>
          if 400 \<le> status response then Inl (ClientResponseError (status response))
          else
     (case json response of
        Inl e \<Rightarrow> Inl e
      | Inr data \<Rightarrow>
     (case dict_get data ''account'' (PDict []) of
        Inl e \<Rightarrow> Inl e
      | Inr account \<Rightarrow>
     (case dict_get account ''account_number'' (PInt 0) of
        Inl e \<Rightarrow> Inl e
      | Inr an \<Rightarrow>
     (case py_int an of
        Inl e \<Rightarrow> Inl e
      | Inr n \<Rightarrow>
     (case dict_get account ''sequence'' (PInt 0) of
        Inl e \<Rightarrow> Inl e
      | Inr sq \<Rightarrow>
     (case py_int sq of
        Inl e \<Rightarrow> Inl e
      | Inr q \<Rightarrow>
          Inr (PDict [(''account_number'', PInt n), (''sequence'', PInt q)])))))))))"

section \<open>Example inputs\<close>

text \<open>A signer with the defaults of the constructor, a wallet and the account data of
  the end-to-end scenario (account number 5, sequence 2).\<close>

definition example_signer :: signer where
  "example_signer =
     \<lparr>rpc_endpoint = ''https://rpc.akash.network'', chain_id = ''akashnet-2'',
      gas_price = ''0.025uakt''\<rparr>"

definition example_wallet :: wallet where
  "example_wallet =
     \<lparr>private_key = replicate 32 (CHR 0x11),
      public_key = CHR 0x02 # replicate 32 (CHR 0x11),
      address = ''akash1test''\<rparr>"

definition example_tx_info :: "int \<Rightarrow> transaction_info" where
  "example_tx_info sq =
     \<lparr>chain_id = ''akashnet-2'', account_number = 5, sequence = sq, fee = PDict [], memo = ''''\<rparr>"

definition example_bid :: pyval where
  "example_bid =
     create_bid_msg example_signer ''akash1test''
       (PDict [(''owner'', PStr ''akash1owner''), (''dseq'', PStr ''7'')]) ''100uakt''"

text \<open>A client with an open session whose every request is answered by \<open>response\<close>.\<close>

definition example_client :: "http_response \<Rightarrow> async_client" where
  "example_client response =
     \<lparr>rest_endpoint = ''https://api.akash.network'', rest_session = Some (\<lambda>url. Inr response)\<rparr>"

text \<open>The answers of a chain to a broadcast: a rejection, a success, and an empty object.\<close>

definition example_rejection :: pyval where
  "example_rejection =
     PDict [(''jsonrpc'', PStr ''2.0''), (''id'', PInt 1),
            (''error'', PDict [(''code'', PInt (- 32603)), (''message'', PStr ''Internal error'')])]"

definition example_success :: pyval where
  "example_success =
     PDict [(''jsonrpc'', PStr ''2.0''), (''id'', PInt 1),
            (''result'', PDict [(''hash'', PStr ''ABCD'')])]"

section \<open>Message builder: properties\<close>

lemma getitem_PDict:
  "getitem (PDict kvs) k = (case map_of kvs k of None \<Rightarrow> Inl (KeyError k) | Some v \<Rightarrow> Inr v)"
  by (simp add: getitem_def)

lemma create_deployment_msg_Inr:
  "json_dumps_default sdl = Inr js \<Longrightarrow>
   \<exists>m. create_deployment_msg self owner sdl deposit = Inr m"
  by (simp add: create_deployment_msg_def)

lemma example_sdl_serializable:
  "\<not> isl (json_dumps_default (PDict []))"
  "\<not> isl (json_dumps_default (PDict [(''version'', PStr ''2.0'')]))"
  by code_simp+

lemma example_versions_differ:
  "create_deployment_msg example_signer ''akash1test'' (PDict []) ''10000000uakt''
   \<noteq> create_deployment_msg example_signer ''akash1test'' (PDict [(''version'', PStr ''2.0'')]) ''10000000uakt''"
  by code_simp

text \<open>
  C9: the \<open>groups\<close> field of a deployment message does not depend on the SDL. For two
  SDL configurations (same owner and deposit) both messages carry the one constant
  group list that \<open>sdl_to_groups\<close> returns for every argument: one group named
  \<open>default\<close> with CPU 1000, memory 1073741824, storage 1073741824, count 1 and
  price 1000uakt. Every field other than \<open>version\<close> is the same in both messages.
\<close>

theorem deployment_groups_constant:
  assumes "create_deployment_msg self owner sdl1 deposit = Inr m1"
      and "create_deployment_msg self owner sdl2 deposit = Inr m2"
  shows "getitem m1 ''groups'' =
           Inr (PList [PDict [
             (''name'', PStr ''default''),
             (''requirements'', PDict [
                (''signed_by'', PDict [(''all_of'', PList []), (''any_of'', PList [])])]),
             (''resources'', PList [PDict [
                (''resources'', PDict [
                   (''cpu'', PDict [(''units'', PDict [(''val'', PStr ''1000'')])]),
                   (''memory'', PDict [(''quantity'', PDict [(''val'', PStr ''1073741824'')])]),
                   (''storage'', PList [PDict [
                      (''name'', PStr ''default''),
                      (''quantity'', PDict [(''val'', PStr ''1073741824'')])]])]),
                (''count'', PInt 1),
                (''price'', PDict [(''denom'', PStr ''uakt''), (''amount'', PStr ''1000'')])]])]])
       \<and> getitem m2 ''groups'' = getitem m1 ''groups''
       \<and> sdl_to_groups sdl1 = sdl_to_groups sdl2
       \<and> (\<forall>k. k \<noteq> ''version'' \<longrightarrow> getitem m1 k = getitem m2 k)"
  using assms
  by (auto simp: create_deployment_msg_def getitem_PDict sdl_to_groups_def split: sum.splits)

theorem deployment_groups_constant_witness:
  "\<exists>m1 m2.
     create_deployment_msg example_signer ''akash1test'' (PDict []) ''10000000uakt'' = Inr m1
   \<and> create_deployment_msg example_signer ''akash1test'' (PDict [(''version'', PStr ''2.0'')])
         ''10000000uakt'' = Inr m2
   \<and> m1 \<noteq> m2
   \<and> getitem m2 ''groups'' = getitem m1 ''groups''
   \<and> (\<forall>k. k \<noteq> ''version'' \<longrightarrow> getitem m1 k = getitem m2 k)"
proof -
  obtain js1 where "json_dumps_default (PDict []) = Inr js1"
    using example_sdl_serializable(1) by (cases "json_dumps_default (PDict [])") auto
  then obtain m1 where h1:
    "create_deployment_msg example_signer ''akash1test'' (PDict []) ''10000000uakt'' = Inr m1"
    using create_deployment_msg_Inr by blast
  obtain js2 where "json_dumps_default (PDict [(''version'', PStr ''2.0'')]) = Inr js2"
    using example_sdl_serializable(2)
    by (cases "json_dumps_default (PDict [(''version'', PStr ''2.0'')])") auto
  then obtain m2 where h2:
    "create_deployment_msg example_signer ''akash1test'' (PDict [(''version'', PStr ''2.0'')])
       ''10000000uakt'' = Inr m2"
    using create_deployment_msg_Inr by blast
  have "m1 \<noteq> m2"
    using example_versions_differ h1 h2 by auto
  note c = deployment_groups_constant [OF h1 h2]
  show ?thesis
  proof (intro exI conjI)
    show "create_deployment_msg example_signer ''akash1test'' (PDict []) ''10000000uakt'' = Inr m1"
      by (rule h1)
    show "create_deployment_msg example_signer ''akash1test'' (PDict [(''version'', PStr ''2.0'')])
         ''10000000uakt'' = Inr m2"
      by (rule h2)
    show "m1 \<noteq> m2" by fact
    show "getitem m2 ''groups'' = getitem m1 ''groups''"
      by (rule c [THEN conjunct2, THEN conjunct1])
    show "\<forall>k. k \<noteq> ''version'' \<longrightarrow> getitem m1 k = getitem m2 k"
      by (rule c [THEN conjunct2, THEN conjunct2, THEN conjunct2])
  qed
qed

section \<open>Signer: properties\<close>

lemma sign_doc_shape:
  "sign_doc tx ti = Inr doc \<Longrightarrow>
   \<exists>bb ab. doc = PDict [(''body_bytes'', PBytes bb), (''auth_info_bytes'', PBytes ab),
     (''chain_id'', PStr (chain_id ti)), (''account_number'', PStr (py_str_int (account_number ti)))]"
  by (auto simp: sign_doc_def split: sum.splits)

lemma sorted_doc_keys:
  "sort_key fst [(''body_bytes'', a), (''auth_info_bytes'', b), (''chain_id'', c), (''account_number'', d)]
   = [(''account_number'', d), (''auth_info_bytes'', b), (''body_bytes'', a), (''chain_id'', c)]"
  by simp

lemma bytes_doc_unserializable:
  "json_dumps_compact (PDict [(''body_bytes'', PBytes bb), (''auth_info_bytes'', PBytes ab),
     (''chain_id'', PStr c), (''account_number'', PStr a)]) = Inl TypeError"
  unfolding json_dumps_compact_def
  by (simp add: sorted_doc_keys del: sort_key_simps)

text \<open>The signing document holds two \<^verbatim>\<open>bytes\<close> objects, so its serialisation raises
  \<^verbatim>\<open>TypeError\<close> whenever the document could be built.\<close>

lemma sign_doc_unserializable:
  assumes "sign_doc tx ti = Inr doc"
  shows "json_dumps_compact doc = Inl TypeError"
proof -
  from sign_doc_shape [OF assms] obtain bb ab where
    "doc = PDict [(''body_bytes'', PBytes bb), (''auth_info_bytes'', PBytes ab),
       (''chain_id'', PStr (chain_id ti)), (''account_number'', PStr (py_str_int (account_number ti)))]"
    by blast
  then show ?thesis
    by (simp only: bytes_doc_unserializable)
qed

lemma sign_bytes_raises: "sign_bytes tx ti \<noteq> Inr b"
proof
  assume h: "sign_bytes tx ti = Inr b"
  then obtain doc where d: "sign_doc tx ti = Inr doc"
    by (auto simp: sign_bytes_def split: sum.splits)
  with h sign_doc_unserializable [OF d] show False
    by (simp add: sign_bytes_def)
qed

lemma sign_transaction_Inl: "\<exists>e. sign_transaction lib w tx ti nonce = Inl e"
  using sign_bytes_raises [of tx ti]
  by (cases "sign_bytes tx ti") (auto simp: sign_transaction_def)

text \<open>
  C10: \<open>sign_transaction\<close> should return the transaction with a signature list of
  length one and every other field unchanged. The code returns nothing: for every
  library, wallet, transaction, transaction metadata and nonce the call ends in an
  exception, because \<^verbatim>\<open>json.dumps\<close> is given the two \<^verbatim>\<open>bytes\<close> values of the signing
  document (or one of the earlier steps has failed already).
\<close>

theorem sign_transaction_never_returns:
  "sign_transaction lib w tx ti nonce \<noteq> Inr tx'"
  using sign_transaction_Inl [of lib w tx ti nonce] by auto

text \<open>
  C8, as stated, fails: a deposit and a price that are no amounts of uakt are accepted.
  The deposit \<^verbatim>\<open>"lots of uatom"\<close> and the price \<^verbatim>\<open>"1.2.3"\<close> go into the messages as
  they are, and no exception is raised.
\<close>

theorem amount_not_validated_counterexample:
  "map_sum id (\<lambda>m. getitem m ''deposit'')
     (create_deployment_msg example_signer ''akash1test'' (PDict []) ''lots of uatom'')
     = Inr (Inr (PDict [(''denom'', PStr ''uakt''), (''amount'', PStr ''lots of uatom'')]))
   \<and> getitem (create_bid_msg example_signer ''akash1test'' (PDict []) ''1.2.3'') ''price''
     = Inr (PDict [(''denom'', PStr ''uakt''), (''amount'', PStr ''1.2.3'')])"
  by code_simp

text \<open>
  C8, amended: the message builders do not validate amounts. \<open>create_bid_msg\<close> never
  fails and \<open>create_deployment_msg\<close> fails exactly when the SDL cannot be serialised,
  whatever the deposit; the amount field is the given string with every occurrence of
  \<^verbatim>\<open>uakt\<close> removed, and the denomination field is the constant \<^verbatim>\<open>uakt\<close>.
\<close>

theorem amount_fields_copied:
  "(create_deployment_msg self owner sdl deposit = Inl e \<longleftrightarrow> json_dumps_default sdl = Inl e)
   \<and> (create_deployment_msg self owner sdl deposit = Inr m \<longrightarrow>
        getitem m ''deposit'' =
          Inr (PDict [(''denom'', PStr ''uakt''),
                      (''amount'', PStr (py_replace deposit ''uakt'' ''''))]))
   \<and> getitem (create_bid_msg self bidder order_id price) ''price'' =
          Inr (PDict [(''denom'', PStr ''uakt''),
                      (''amount'', PStr (py_replace price ''uakt'' ''''))])"
  by (auto simp: create_deployment_msg_def create_bid_msg_def getitem_PDict split: sum.splits)

lemma example_deposits:
  "py_replace ''12 uatom'' ''uakt'' '''' = ''12 uatom''"
  "py_replace ''5000000uakt'' ''uakt'' '''' = ''5000000''"
  by code_simp+

theorem amount_fields_copied_witness:
  "\<exists>m. create_deployment_msg example_signer ''akash1test'' (PDict []) ''12 uatom'' = Inr m
     \<and> getitem m ''deposit'' = Inr (PDict [(''denom'', PStr ''uakt''), (''amount'', PStr ''12 uatom'')])"
proof -
  obtain js where "json_dumps_default (PDict []) = Inr js"
    using example_sdl_serializable(1) by (cases "json_dumps_default (PDict [])") auto
  then obtain m where h:
    "create_deployment_msg example_signer ''akash1test'' (PDict []) ''12 uatom'' = Inr m"
    using create_deployment_msg_Inr by blast
  from amount_fields_copied [of example_signer "''akash1test''" "PDict []" "''12 uatom''" undefined m] h
  have "getitem m ''deposit'' =
          Inr (PDict [(''denom'', PStr ''uakt''),
                      (''amount'', PStr (py_replace ''12 uatom'' ''uakt'' ''''))])"
    by blast
  with h show ?thesis
    by (auto simp: example_deposits)
qed

section \<open>Transaction assembler: properties\<close>

lemma create_transaction_Inl:
  "create_transaction self w messages ti gas_limit = Inl e \<longleftrightarrow> gas_amount self gas_limit = Inl e"
  by (simp add: create_transaction_def split: sum.splits)

lemma create_transaction_Inr:
  "gas_amount self gas_limit = Inr a \<Longrightarrow>
   \<exists>tx. create_transaction self w messages ti gas_limit = Inr tx"
  by (simp add: create_transaction_def)

lemma example_gas_amounts:
  "gas_amount example_signer 0 = Inr 0"
  "gas_amount example_signer 1 = Inr 0"
  "gas_amount example_signer 200000 = Inr 5000"
  "gas_amount example_signer (- 7) = Inr 0"
  by code_simp+




section \<open>Account resolver: properties\<close>

text \<open>
  C5, as stated, fails. When the answer to the account query is a JSON object without
  an \<open>account\<close> field, the resolver returns account number 0 and sequence 0 like any
  other result: no exception, nothing that marks the account as unresolved. When the
  query is answered with status 404, the exception is aiohttp's
  \<open>ClientResponseError\<close>.
\<close>

theorem missing_account_counterexample:
  "get_account_info (example_client \<lparr>status = 200, json = Inr (PDict [])\<rparr>) ''akash1test''
     = Inr (PDict [(''account_number'', PInt 0), (''sequence'', PInt 0)])
   \<and> get_account_info
         (example_client \<lparr>status = 404, json = Inr (PDict [(''code'', PInt 5)])\<rparr>) ''akash1test''
     = Inl (ClientResponseError 404)"
  by (simp add: get_account_info_def example_client_def dict_get_def py_int_def)

text \<open>
  C5, amended: when the account query is answered with a status below 400 and a JSON
  object without an \<open>account\<close> field, account resolution does not crash; it returns
  account number 0 and sequence 0 as its result, with no exception and no flag.
\<close>

theorem missing_account_defaults:
  assumes "rest_session self = Some get"
      and "get (rest_endpoint self @ ''/cosmos/auth/v1beta1/accounts/'' @ addr) = Inr response"
      and "status response < 400"
      and "json response = Inr (PDict kvs)"
      and "map_of kvs ''account'' = None"
  shows "get_account_info self addr =
           Inr (PDict [(''account_number'', PInt 0), (''sequence'', PInt 0)])"
  using assms by (simp add: get_account_info_def dict_get_def py_int_def)

theorem missing_account_defaults_witness:
  "get_account_info
     (example_client \<lparr>status = 200, json = Inr (PDict [(''height'', PStr ''12'')])\<rparr>) ''akash1test''
   = Inr (PDict [(''account_number'', PInt 0), (''sequence'', PInt 0)])"
proof -
  let ?r = "\<lparr>status = 200, json = Inr (PDict [(''height'', PStr ''12'')])\<rparr>"
  have h1: "rest_session (example_client ?r) = Some (\<lambda>url. Inr ?r)"
    by (simp add: example_client_def)
  have h2: "(\<lambda>url. Inr ?r)
              (rest_endpoint (example_client ?r) @ ''/cosmos/auth/v1beta1/accounts/'' @ ''akash1test'')
            = Inr ?r"
    by simp
  have h3: "status ?r < 400"
    by simp
  have h4: "json ?r = Inr (PDict [(''height'', PStr ''12'')])"
    by simp
  have h5: "map_of [(''height'', PStr ''12'')] ''account'' = None"
    by simp
  show ?thesis
    by (rule missing_account_defaults [OF h1 h2 h3 h4 h5])
qed

section \<open>Broadcaster: properties\<close>

lemma contains_str_PDict:
  "contains_str k (PDict kvs) = Inr (map_of kvs k \<noteq> None)"
  by (simp add: contains_str_def map_of_eq_None_iff)

lemma example_broadcast_data: "\<not> isl (broadcast_data (PDict [(''signatures'', PList [])]))"
  by code_simp

text \<open>
  C4, as stated, fails. A response with an \<open>error\<close> field raises the module's one
  general exception, \<open>AkashTransactionError\<close>, whose message is the text
  \<^verbatim>\<open>Broadcast failed: \<close> followed by the whole error value; there is no
  \<open>ChainRejectionError\<close> and no field for the code or the message. A response without
  an \<open>error\<close> field and without a \<open>result\<close> field raises \<open>KeyError\<close>.
\<close>

theorem broadcast_rejection_counterexample:
  "broadcast_transaction example_signer (\<lambda>url req. Inr example_rejection)
       (PDict [(''signatures'', PList [])])
     = Inl (AkashTransactionError ''Broadcast failed: ''
              (PDict [(''code'', PInt (- 32603)), (''message'', PStr ''Internal error'')]))
   \<and> broadcast_transaction example_signer (\<lambda>url req. Inr (PDict [(''id'', PInt 1)]))
       (PDict [(''signatures'', PList [])])
     = Inl (KeyError ''result'')"
  by code_simp

text \<open>
  C4, amended: for a signed transaction that can be serialised and a response that is
  a JSON object, a response with an \<open>error\<close> field raises the general
  \<open>AkashTransactionError\<close> whose message is \<^verbatim>\<open>Broadcast failed: \<close> followed by the
  text of the error value (code and message are part of that text); a response without
  an \<open>error\<close> field and with a \<open>result\<close> field returns the result; a response with
  neither raises \<open>KeyError\<close>.
\<close>

theorem broadcast_response_cases:
  assumes "broadcast_data signed_tx = Inr req"
      and "post (rpc_endpoint self @ ''/'') req = Inr (PDict kvs)"
  shows "(map_of kvs ''error'' = Some err \<longrightarrow>
            broadcast_transaction self post signed_tx =
              Inl (AkashTransactionError ''Broadcast failed: '' err))
       \<and> (map_of kvs ''error'' = None \<longrightarrow> map_of kvs ''result'' = Some r \<longrightarrow>
            broadcast_transaction self post signed_tx = Inr r)
       \<and> (map_of kvs ''error'' = None \<longrightarrow> map_of kvs ''result'' = None \<longrightarrow>
            broadcast_transaction self post signed_tx = Inl (KeyError ''result''))"
  using assms
  by (simp add: broadcast_transaction_def contains_str_PDict getitem_PDict)

theorem broadcast_response_cases_witness:
  "broadcast_transaction example_signer (\<lambda>url req. Inr example_rejection)
       (PDict [(''signatures'', PList [])])
     = Inl (AkashTransactionError ''Broadcast failed: ''
              (PDict [(''code'', PInt (- 32603)), (''message'', PStr ''Internal error'')]))
   \<and> broadcast_transaction example_signer (\<lambda>url req. Inr example_success)
       (PDict [(''signatures'', PList [])])
     = Inr (PDict [(''hash'', PStr ''ABCD'')])"
proof -
  obtain req where r: "broadcast_data (PDict [(''signatures'', PList [])]) = Inr req"
    using example_broadcast_data
    by (cases "broadcast_data (PDict [(''signatures'', PList [])])") auto
  have e: "map_of [(''jsonrpc'', PStr ''2.0''), (''id'', PInt 1),
            (''error'', PDict [(''code'', PInt (- 32603)), (''message'', PStr ''Internal error'')])]
            ''error'' = Some (PDict [(''code'', PInt (- 32603)), (''message'', PStr ''Internal error'')])"
    by simp
  have s: "map_of [(''jsonrpc'', PStr ''2.0''), (''id'', PInt 1),
            (''result'', PDict [(''hash'', PStr ''ABCD'')])] ''error'' = None"
          "map_of [(''jsonrpc'', PStr ''2.0''), (''id'', PInt 1),
            (''result'', PDict [(''hash'', PStr ''ABCD'')])] ''result'' = Some (PDict [(''hash'', PStr ''ABCD'')])"
    by simp_all
  have 1: "broadcast_transaction example_signer (\<lambda>url req. Inr example_rejection)
       (PDict [(''signatures'', PList [])])
     = Inl (AkashTransactionError ''Broadcast failed: ''
              (PDict [(''code'', PInt (- 32603)), (''message'', PStr ''Internal error'')]))"
    using broadcast_response_cases [OF r, of "\<lambda>url req. Inr example_rejection" example_signer
            "[(''jsonrpc'', PStr ''2.0''), (''id'', PInt 1),
              (''error'', PDict [(''code'', PInt (- 32603)), (''message'', PStr ''Internal error'')])]"
            "PDict [(''code'', PInt (- 32603)), (''message'', PStr ''Internal error'')]"] e
    by (simp add: example_rejection_def)
  have 2: "broadcast_transaction example_signer (\<lambda>url req. Inr example_success)
       (PDict [(''signatures'', PList [])])
     = Inr (PDict [(''hash'', PStr ''ABCD'')])"
    using broadcast_response_cases [OF r, of "\<lambda>url req. Inr example_success" example_signer
            "[(''jsonrpc'', PStr ''2.0''), (''id'', PInt 1),
              (''result'', PDict [(''hash'', PStr ''ABCD'')])]" _
            "PDict [(''hash'', PStr ''ABCD'')]"] s
    by (simp add: example_success_def)
  from 1 2 show ?thesis by (rule conjI)
qed

section \<open>Library functions: properties\<close>

subsection \<open>UTF-8 encoding is injective\<close>




subsection \<open>Decimal strings\<close>






lemma digits_of_not_Nil: "digits_of n \<noteq> []"
  by (subst digits_of.simps) simp








section \<open>Signing an assembled transaction\<close>

lemma sign_transaction_TypeError:
  assumes "sign_doc tx ti = Inr doc"
  shows "sign_transaction lib w tx ti nonce = Inl TypeError"
  using assms sign_doc_unserializable [OF assms]
  by (simp add: sign_transaction_def sign_bytes_def)

lemma example_sign_doc:
  "case create_transaction example_signer example_wallet [example_bid] (example_tx_info 2) 200000 of
     Inl e \<Rightarrow> False
   | Inr tx \<Rightarrow> \<not> isl (sign_doc tx (example_tx_info 2))"
  "case create_transaction example_signer example_wallet [example_bid] (example_tx_info 3) 200000 of
     Inl e \<Rightarrow> False
   | Inr tx \<Rightarrow> \<not> isl (sign_doc tx (example_tx_info 3))"
  by code_simp+

text \<open>
  C1: signing twice should yield byte-identical signatures. The code yields no
  signature at all. For the transaction assembled from one bid message with the default
  signer, account number 5, sequence 2 and gas limit 200000, \<open>sign_transaction\<close> raises
  \<open>TypeError\<close> for every library and every nonce: the serialisation of the signing
  document fails before the hash and the signature are computed.
\<close>

theorem sign_transaction_yields_no_signature:
  "\<exists>tx. create_transaction example_signer example_wallet [example_bid] (example_tx_info 2) 200000
           = Inr tx
      \<and> (\<forall>lib nonce. sign_transaction lib example_wallet tx (example_tx_info 2) nonce
             = Inl TypeError)"
proof -
  obtain tx where tx:
    "create_transaction example_signer example_wallet [example_bid] (example_tx_info 2) 200000 = Inr tx"
    using create_transaction_Inr [OF example_gas_amounts(3)] by blast
  with example_sign_doc(1) obtain doc where "sign_doc tx (example_tx_info 2) = Inr doc"
    by (cases "sign_doc tx (example_tx_info 2)") auto
  then have "sign_transaction lib example_wallet tx (example_tx_info 2) nonce = Inl TypeError"
    for lib nonce
    by (rule sign_transaction_TypeError)
  with tx show ?thesis by blast
qed

section \<open>Sequence sensitivity\<close>







end
